theory Spec2Isabelle
  imports Complex_Main "HOL-Library.Sublist" "HOL-Library.AList" "HOL-Library.Multiset"
begin

section \<open>Upstream monitoring dashboard: data model\<close>

text \<open>
  The script \<^verbatim>\<open>.github/scripts/monitoring-dashboard.py\<close> polls two repositories,
  counts activity per calendar day, classifies issues and pull requests by keyword and
  assembles a summary. This theory embeds its computations as HOL functions.

  Conventions of the embedding:
  \<^item> A Python \<^verbatim>\<open>str\<close> is a \<open>string\<close> (the UTF-8 bytes of the text); \<^verbatim>\<open>str.lower\<close> maps the
    ASCII capitals to their small letters. All keywords of the script are ASCII.
  \<^item> A \<^verbatim>\<open>datetime\<close> is the number of seconds since the epoch, a \<^verbatim>\<open>date\<close> the number of
    days since the epoch; \<^verbatim>\<open>.date()\<close> is \<open>div 86400\<close> and \<^verbatim>\<open>timedelta.days\<close> is the floor of
    the difference in days, as in Python.
  \<^item> A Python \<^verbatim>\<open>dict\<close> is an association list with distinct keys in insertion order.
  \<^item> A raised exception is the \<open>Inl\<close> of a sum; \<open>Inr\<close> is a normal return.
  \<^item> Python's float division is taken as exact division of rationals.
  \<^item> \<^verbatim>\<open>isoformat\<close> of the standard library is a parameter of the functions that call it.
\<close>

datatype py_error = GithubException | AttributeError | TypeError | ValueError | ZeroDivisionError

type_synonym datetime = int
type_synonym date = int

definition date_of :: "datetime \<Rightarrow> date" where
  "date_of t = t div 86400"

definition timedelta_days :: "datetime \<Rightarrow> datetime \<Rightarrow> int" where
  "timedelta_days a b = (a - b) div 86400"

record issue =
  title :: string
  body :: "string option"
  user_login :: string
  created_at :: datetime
  closed_at :: "datetime option"
  updated_at :: datetime
  labels :: "string list"

record pull =
  pr_title :: string
  pr_body :: "string option"
  pr_user_login :: string
  pr_created_at :: datetime
  merged :: bool
  merged_at :: "datetime option"

record release =
  published_at :: "datetime option"

datatype sort_field = Created | Updated

text \<open>
  What the hosting API answers to the list calls the script makes on one repository:
  \<^verbatim>\<open>get_issues(state="all", labels=..., sort=..., direction="desc")\<close>,
  \<^verbatim>\<open>get_pulls(state="all", sort="created", direction="desc")\<close> and \<^verbatim>\<open>get_releases()\<close>,
  each turned into a list. A transport error is an \<open>Inl\<close>.
\<close>

record repo_api =
  get_issues :: "string list \<Rightarrow> sort_field \<Rightarrow> py_error + issue list"
  get_pulls :: "py_error + pull list"
  get_releases :: "py_error + release list"

record ActivityMetrics =
  date :: string
  upstream_issues_opened :: int
  upstream_issues_closed :: int
  upstream_prs_opened :: int
  upstream_prs_merged :: int
  upstream_releases :: int
  downstream_tasks_created :: int
  downstream_tasks_completed :: int
  sync_activities :: int

subsection \<open>Strings and dictionaries\<close>

definition lower_char :: "char \<Rightarrow> char" where
  "lower_char c =
     (let n = (of_char c :: nat) in if 65 \<le> n \<and> n \<le> 90 then char_of (n + 32) else c)"

definition lower :: "string \<Rightarrow> string" where
  "lower s = map lower_char s"

text \<open>\<^verbatim>\<open>x.lower()\<close> on an attribute that may be \<^verbatim>\<open>None\<close>.\<close>

fun lower_attr :: "string option \<Rightarrow> py_error + string" where
  "lower_attr None = Inl AttributeError"
| "lower_attr (Some s) = Inr (lower s)"

text \<open>Truth value of an optional string: \<^verbatim>\<open>None\<close> and the empty string are false.\<close>

fun truthy :: "string option \<Rightarrow> bool" where
  "truthy None = False"
| "truthy (Some s) = (s \<noteq> [])"

text \<open>\<^verbatim>\<open>any(keyword in text for keyword in kws)\<close>\<close>

definition any_keyword :: "string \<Rightarrow> string list \<Rightarrow> bool" where
  "any_keyword text kws = list_ex (\<lambda>keyword. sublist keyword text) kws"

type_synonym ('k, 'v) dict = "('k \<times> 'v) list"

text \<open>\<^verbatim>\<open>d.get(k, default)\<close>\<close>

definition dict_get :: "('k, 'v) dict \<Rightarrow> 'k \<Rightarrow> 'v \<Rightarrow> 'v" where
  "dict_get d k dflt = (case map_of d k of None \<Rightarrow> dflt | Some v \<Rightarrow> v)"

text \<open>\<^verbatim>\<open>d[k] = v\<close>: an existing key keeps its position, a new key goes last.\<close>

definition dict_set :: "('k, 'v) dict \<Rightarrow> 'k \<Rightarrow> 'v \<Rightarrow> ('k, 'v) dict" where
  "dict_set d k v = AList.update k v d"

text \<open>\<^verbatim>\<open>d[k] = d.get(k, 0) + 1\<close>\<close>

definition dict_incr :: "(string, int) dict \<Rightarrow> string \<Rightarrow> (string, int) dict" where
  "dict_incr d k = dict_set d k (dict_get d k 0 + 1)"

text \<open>\<^verbatim>\<open>dict(pairs)\<close>\<close>

definition dict_of_pairs :: "('k \<times> 'v) list \<Rightarrow> ('k, 'v) dict" where
  "dict_of_pairs ps = foldl (\<lambda>d (k, v). dict_set d k v) [] ps"

text \<open>
  \<^verbatim>\<open>sorted(xs, key=f, reverse=True)\<close>: CPython reverses the list, sorts it stably in
  ascending order and reverses the result, which keeps equal keys in their original order.
\<close>

definition sorted_reverse :: "('a \<Rightarrow> 'b::linorder) \<Rightarrow> 'a list \<Rightarrow> 'a list" where
  "sorted_reverse f xs = rev (sort_key f (rev xs))"

text \<open>A \<^verbatim>\<open>for\<close> loop over a list whose body may raise.\<close>

fun for_each :: "('s \<Rightarrow> 'a \<Rightarrow> py_error + 's) \<Rightarrow> 'a list \<Rightarrow> 's \<Rightarrow> py_error + 's" where
  "for_each f [] s = Inr s"
| "for_each f (x # xs) s = (case f s x of Inl e \<Rightarrow> Inl e | Inr s' \<Rightarrow> for_each f xs s')"

text \<open>A list comprehension \<^verbatim>\<open>[x for x in xs if p(x)]\<close> whose condition may raise.\<close>

fun filter_raise :: "('a \<Rightarrow> py_error + bool) \<Rightarrow> 'a list \<Rightarrow> py_error + 'a list" where
  "filter_raise p [] = Inr []"
| "filter_raise p (x # xs) =
     (case p x of
        Inl e \<Rightarrow> Inl e
      | Inr b \<Rightarrow>
          (case filter_raise p xs of
             Inl e \<Rightarrow> Inl e
           | Inr ys \<Rightarrow> Inr (if b then x # ys else ys)))"

text \<open>\<^verbatim>\<open>max(xs)\<close> raises on an empty sequence.\<close>

fun py_max :: "int list \<Rightarrow> py_error + int" where
  "py_max [] = Inl ValueError"
| "py_max (x # xs) = Inr (fold max xs x)"

section \<open>Double-precision arithmetic\<close>

text \<open>
  A Python \<^verbatim>\<open>float\<close> is an IEEE 754 binary64 number. It is modelled by the rational number it
  denotes, and every operation returns the double nearest to the exact result, a tie going to
  the even significand. The infinities, the NaNs and the sign of zero are left out: the
  operands below are numbers of objects held in memory and numbers of days between two
  datetimes, so that no result reaches \<open>2 ^ 1024\<close> in magnitude.
\<close>

definition round_half_even :: "rat \<Rightarrow> int" where
  "round_half_even x =
     (let f = \<lfloor>x\<rfloor>; r = x - of_int f
      in if r < 1 / 2 then f else if 1 / 2 < r then f + 1 else if even f then f else f + 1)"

definition pow2 :: "int \<Rightarrow> rat" where
  "pow2 e = (if 0 \<le> e then 2 ^ nat e else 1 / 2 ^ nat (- e))"

text \<open>The number of binary digits of a positive integer.\<close>

function bit_length :: "int \<Rightarrow> int" where
  "bit_length n = (if n \<le> 0 then 0 else 1 + bit_length (n div 2))"
  by pat_completeness auto
termination
  by (relation "measure nat") auto

declare bit_length.simps [simp del]

text \<open>For a positive \<open>x\<close>, the exponent \<open>e\<close> with \<open>2 ^ e \<le> x < 2 ^ (e + 1)\<close>.\<close>

definition ilog2 :: "rat \<Rightarrow> int" where
  "ilog2 x =
     (let (a, b) = quotient_of x;
          d = bit_length a - bit_length b
      in if x < pow2 d then d - 1 else d)"

text \<open>
  The nearest double: a significand of 53 binary digits, whose last digit weighs \<open>2 ^ q\<close>
  with \<open>q\<close> not below \<open>- 1074\<close> (the subnormal numbers).
\<close>

definition to_double :: "rat \<Rightarrow> rat" where
  "to_double x =
     (if x = 0 then 0
      else (let e = ilog2 \<bar>x\<bar>;
                q = max e (- 1022) - 52;
                m = round_half_even (\<bar>x\<bar> / pow2 q)
            in sgn x * of_int m * pow2 q))"

text \<open>\<^verbatim>\<open>float(n)\<close>, the conversion that \<^verbatim>\<open>n / x\<close> applies to an integer \<open>n\<close> beside a float.\<close>

definition float_of_int :: "int \<Rightarrow> rat" where
  "float_of_int n = to_double (of_int n)"

text \<open>\<^verbatim>\<open>a / b\<close> on two integers, \<open>b\<close> not zero: the correctly rounded quotient.\<close>

definition int_truediv :: "int \<Rightarrow> int \<Rightarrow> rat" where
  "int_truediv a b = to_double (of_int a / of_int b)"

text \<open>\<^verbatim>\<open>x / y\<close> and \<^verbatim>\<open>x * y\<close> on two floats.\<close>

definition float_truediv :: "rat \<Rightarrow> rat \<Rightarrow> rat" where
  "float_truediv x y = to_double (x / y)"

definition float_mul :: "rat \<Rightarrow> rat \<Rightarrow> rat" where
  "float_mul x y = to_double (x * y)"

text \<open>\<^verbatim>\<open>a / b\<close> on two integers.\<close>

definition py_truediv :: "int \<Rightarrow> int \<Rightarrow> py_error + rat" where
  "py_truediv a b = (if b = 0 then Inl ZeroDivisionError else Inr (int_truediv a b))"

text \<open>
  \<^verbatim>\<open>round(x, ndigits)\<close> on a float: the decimal number of \<open>ndigits\<close> places nearest to the
  exact value of \<open>x\<close>, a tie going to the even last digit, and then the double nearest to it.
\<close>

definition py_round :: "rat \<Rightarrow> nat \<Rightarrow> rat" where
  "py_round x ndigits = to_double (of_int (round_half_even (x * 10 ^ ndigits)) / 10 ^ ndigits)"

section \<open>The daily aggregator\<close>

definition created_on :: "date \<Rightarrow> issue \<Rightarrow> bool" where
  "created_on d i = (date_of (created_at i) = d)"

text \<open>\<^verbatim>\<open>issue.closed_at and issue.closed_at.date() == date\<close>\<close>

definition closed_on :: "date \<Rightarrow> issue \<Rightarrow> bool" where
  "closed_on d i = (case closed_at i of None \<Rightarrow> False | Some t \<Rightarrow> date_of t = d)"

definition updated_on :: "date \<Rightarrow> issue \<Rightarrow> bool" where
  "updated_on d i = (date_of (updated_at i) = d)"

definition pr_created_on :: "date \<Rightarrow> pull \<Rightarrow> bool" where
  "pr_created_on d pr = (date_of (pr_created_at pr) = d)"

text \<open>
  \<^verbatim>\<open>pr.merged and pr.merged_at.date() == date\<close>: the timestamp is read without a check,
  so a merged pull request without one raises.
\<close>

definition merged_on :: "date \<Rightarrow> pull \<Rightarrow> py_error + bool" where
  "merged_on d pr =
     (if merged pr
      then (case merged_at pr of None \<Rightarrow> Inl AttributeError | Some t \<Rightarrow> Inr (date_of t = d))
      else Inr False)"

text \<open>\<^verbatim>\<open>rel.published_at and rel.published_at.date() == date\<close>\<close>

definition published_on :: "date \<Rightarrow> release \<Rightarrow> bool" where
  "published_on d rel = (case published_at rel of None \<Rightarrow> False | Some t \<Rightarrow> date_of t = d)"

definition sync_labels :: "string list" where
  "sync_labels = [''upstream-sync'', ''upstream-pr'', ''upstream-release'']"

text \<open>The body of the loop over \<open>sync_labels\<close>.\<close>

definition sync_step :: "repo_api \<Rightarrow> date \<Rightarrow> int \<Rightarrow> string \<Rightarrow> py_error + int" where
  "sync_step down d sync_count label =
     (case get_issues down [label] Updated of
        Inl e \<Rightarrow> Inl e
      | Inr labeled_issues \<Rightarrow>
          Inr (sync_count + int (length (filter (updated_on d) labeled_issues))))"

definition collect_daily_metrics ::
  "(date \<Rightarrow> string) \<Rightarrow> repo_api \<Rightarrow> repo_api \<Rightarrow> date \<Rightarrow> py_error + ActivityMetrics" where
  "collect_daily_metrics isoformat up down d =
     (case get_issues up [] Created of Inl e \<Rightarrow> Inl e | Inr upstream_issues \<Rightarrow>
      case get_pulls up of Inl e \<Rightarrow> Inl e | Inr upstream_prs \<Rightarrow>
      case filter_raise (merged_on d) upstream_prs of Inl e \<Rightarrow> Inl e | Inr prs_merged_on_date \<Rightarrow>
      case get_releases up of Inl e \<Rightarrow> Inl e | Inr releases \<Rightarrow>
      case get_issues down [''upstream-sync''] Created of Inl e \<Rightarrow> Inl e | Inr downstream_issues \<Rightarrow>
      case for_each (sync_step down d) sync_labels 0 of Inl e \<Rightarrow> Inl e | Inr sync_count \<Rightarrow>
      Inr \<lparr> date = isoformat d,
            upstream_issues_opened = int (length (filter (created_on d) upstream_issues)),
            upstream_issues_closed = int (length (filter (closed_on d) upstream_issues)),
            upstream_prs_opened = int (length (filter (pr_created_on d) upstream_prs)),
            upstream_prs_merged = int (length prs_merged_on_date),
            upstream_releases = int (length (filter (published_on d) releases)),
            downstream_tasks_created = int (length (filter (created_on d) downstream_issues)),
            downstream_tasks_completed = int (length (filter (closed_on d) downstream_issues)),
            sync_activities = sync_count \<rparr>)"

section \<open>The trend analyzer\<close>

record Trends =
  issue_categories :: "(string, int) dict"
  pr_types :: "(string, int) dict"
  release_frequency :: rat
  top_contributors :: "(string, int) dict"
  complexity_trends :: "(string, int) dict"

text \<open>
  \<^verbatim>\<open>title = x.title.lower(); body = x.body.lower() if x.body else ""; text = f"{title} {body}"\<close>
\<close>

definition item_text :: "string \<Rightarrow> string option \<Rightarrow> py_error + string" where
  "item_text ttl bdy =
     (case (if truthy bdy then lower_attr bdy else Inr []) of
        Inl e \<Rightarrow> Inl e
      | Inr b \<Rightarrow> Inr (lower ttl @ '' '' @ b))"

definition issue_category :: "string \<Rightarrow> string" where
  "issue_category text =
     (if any_keyword text [''bug'', ''error'', ''crash'', ''fix''] then ''bug''
      else if any_keyword text [''feature'', ''enhancement'', ''add''] then ''feature''
      else if any_keyword text [''docs'', ''documentation'', ''readme''] then ''documentation''
      else if any_keyword text [''performance'', ''optimization'', ''speed''] then ''performance''
      else ''other'')"

definition pr_type :: "string \<Rightarrow> string" where
  "pr_type text =
     (if any_keyword text [''fix'', ''bugfix''] then ''fix''
      else if any_keyword text [''feat'', ''feature''] then ''feature''
      else if any_keyword text [''refactor'', ''cleanup''] then ''refactor''
      else if any_keyword text [''docs'', ''documentation''] then ''documentation''
      else ''other'')"

definition issue_step :: "Trends \<Rightarrow> issue \<Rightarrow> py_error + Trends" where
  "issue_step t i =
     (case item_text (title i) (body i) of
        Inl e \<Rightarrow> Inl e
      | Inr text \<Rightarrow>
          Inr (t \<lparr> issue_categories := dict_incr (issue_categories t) (issue_category text),
                   top_contributors := dict_incr (top_contributors t) (user_login i) \<rparr>))"

definition pr_step :: "Trends \<Rightarrow> pull \<Rightarrow> py_error + Trends" where
  "pr_step t pr =
     (case item_text (pr_title pr) (pr_body pr) of
        Inl e \<Rightarrow> Inl e
      | Inr text \<Rightarrow>
          Inr (t \<lparr> pr_types := dict_incr (pr_types t) (pr_type text),
                   top_contributors := dict_incr (top_contributors t) (pr_user_login pr) \<rparr>))"

text \<open>
  \<^verbatim>\<open>len(releases) / max(days_diff / 30, 1)\<close>. The quotient \<^verbatim>\<open>days_diff / 30\<close> is a float;
  \<^verbatim>\<open>max\<close> returns it unless the integer 1 is greater. The count is then divided by the
  integer 1 or, converted to a float, by that float.
\<close>

definition release_cadence :: "nat \<Rightarrow> int \<Rightarrow> rat" where
  "release_cadence release_count days_diff =
     (let months = int_truediv days_diff 30
      in if 1 > months then int_truediv (int release_count) 1
         else float_truediv (float_of_int (int release_count)) months)"

text \<open>
  The release frequency: \<^verbatim>\<open>latest - oldest\<close> raises when either timestamp is \<^verbatim>\<open>None\<close>.
\<close>

definition release_step :: "Trends \<Rightarrow> release list \<Rightarrow> py_error + Trends" where
  "release_step t releases =
     (if 1 < length releases
      then (case (published_at (hd releases), published_at (last releases)) of
              (Some latest, Some oldest) \<Rightarrow>
                (let days_diff = timedelta_days latest oldest
                 in Inr (t \<lparr> release_frequency := release_cadence (length releases) days_diff \<rparr>))
            | _ \<Rightarrow> Inl TypeError)
      else Inr t)"

definition initial_trends :: Trends where
  "initial_trends =
     \<lparr> issue_categories = [], pr_types = [], release_frequency = 0,
       top_contributors = [], complexity_trends = [] \<rparr>"

definition analyze_upstream_trends :: "repo_api \<Rightarrow> int \<Rightarrow> py_error + Trends" where
  "analyze_upstream_trends up days =
     (case get_issues up [] Created of Inl e \<Rightarrow> Inl e | Inr all_issues \<Rightarrow>
      case for_each issue_step (take 100 all_issues) initial_trends of Inl e \<Rightarrow> Inl e | Inr t1 \<Rightarrow>
      case get_pulls up of Inl e \<Rightarrow> Inl e | Inr all_prs \<Rightarrow>
      case for_each pr_step (take 100 all_prs) t1 of Inl e \<Rightarrow> Inl e | Inr t2 \<Rightarrow>
      case get_releases up of Inl e \<Rightarrow> Inl e | Inr releases \<Rightarrow>
      case release_step t2 releases of Inl e \<Rightarrow> Inl e | Inr t3 \<Rightarrow>
      Inr (t3 \<lparr> top_contributors :=
                  dict_of_pairs (take 10 (sorted_reverse snd (top_contributors t3))) \<rparr>))"

section \<open>The last synchronisation\<close>

text \<open>The body of the \<^verbatim>\<open>try\<close> block.\<close>

definition last_sync_lookup :: "(datetime \<Rightarrow> string) \<Rightarrow> repo_api \<Rightarrow> py_error + string" where
  "last_sync_lookup isoformat down =
     (case get_issues down [''upstream-sync''] Updated of
        Inl e \<Rightarrow> Inl e
      | Inr all_issues \<Rightarrow>
          (let sync_issues = take 5 all_issues
           in if sync_issues \<noteq> []
              then (case py_max (map updated_at sync_issues) of
                      Inl e \<Rightarrow> Inl e
                    | Inr last_sync \<Rightarrow> Inr (isoformat last_sync))
              else Inr ''No recent syncs found''))"

text \<open>\<^verbatim>\<open>except Exception\<close>: every error of the body becomes the string \<^verbatim>\<open>Unknown\<close>.\<close>

definition get_last_sync_time :: "(datetime \<Rightarrow> string) \<Rightarrow> repo_api \<Rightarrow> string" where
  "get_last_sync_time isoformat down =
     (case last_sync_lookup isoformat down of Inl e \<Rightarrow> ''Unknown'' | Inr s \<Rightarrow> s)"

section \<open>The dashboard data\<close>

record Summary =
  total_upstream_issues :: int
  total_upstream_prs :: int
  total_downstream_tasks :: int
  sync_efficiency :: rat
  data_period :: string

record CurrentStatus =
  last_sync :: string
  active_monitoring :: bool
  upstream_repo_status :: string
  downstream_repo_status :: string

record DashboardData =
  summary :: Summary
  trends :: Trends
  daily_metrics :: "ActivityMetrics list"
  current_status :: CurrentStatus

text \<open>
  The remote repositories are read at different moments of a run, and each read may
  answer differently or fail. \<open>up n\<close> and \<open>down n\<close> are what the two repositories answer
  in round \<open>n\<close>: rounds 0 to 29 are the iterations of the loop over the days, round 30 is
  the trend analysis and round 31 the lookup of the last synchronisation. Within a round
  no call is made twice with the same arguments.
\<close>

text \<open>
  The loop over \<^verbatim>\<open>range(30)\<close>: an exception of \<open>collect_daily_metrics\<close> is caught and the
  loop goes on with the next day.
\<close>

fun collect_days ::
  "(date \<Rightarrow> string) \<Rightarrow> (nat \<Rightarrow> repo_api) \<Rightarrow> (nat \<Rightarrow> repo_api) \<Rightarrow> date \<Rightarrow> nat list \<Rightarrow>
   ActivityMetrics list \<Rightarrow> ActivityMetrics list" where
  "collect_days isoformat up down today [] metrics_data = metrics_data"
| "collect_days isoformat up down today (i # rest) metrics_data =
     (case collect_daily_metrics isoformat (up i) (down i) (today - int i) of
        Inl e \<Rightarrow> collect_days isoformat up down today rest metrics_data
      | Inr metrics \<Rightarrow> collect_days isoformat up down today rest (metrics_data @ [metrics]))"

text \<open>
  \<^verbatim>\<open>(total_downstream_tasks / total_upstream_issues) * 100\<close> under its guard: the quotient of
  the two integers is a float, and so is its product with 100.
\<close>

definition sync_efficiency_of :: "int \<Rightarrow> int \<Rightarrow> py_error + rat" where
  "sync_efficiency_of total_tasks total_issues =
     (if 0 < total_issues
      then (case py_truediv total_tasks total_issues of
              Inl e \<Rightarrow> Inl e
            | Inr q \<Rightarrow> Inr (float_mul q 100))
      else Inr 0)"

definition generate_dashboard_data ::
  "(date \<Rightarrow> string) \<Rightarrow> (datetime \<Rightarrow> string) \<Rightarrow> (nat \<Rightarrow> repo_api) \<Rightarrow> (nat \<Rightarrow> repo_api) \<Rightarrow>
   date \<Rightarrow> py_error + DashboardData" where
  "generate_dashboard_data date_iso datetime_iso up down today =
     (let metrics_data = collect_days date_iso up down today [0..<30] []
      in case analyze_upstream_trends (up 30) 30 of Inl e \<Rightarrow> Inl e | Inr trends_found \<Rightarrow>
         (let total_issues = sum_list (map upstream_issues_opened metrics_data);
              total_prs = sum_list (map upstream_prs_opened metrics_data);
              total_tasks = sum_list (map downstream_tasks_created metrics_data)
          in case sync_efficiency_of total_tasks total_issues of Inl e \<Rightarrow> Inl e | Inr efficiency \<Rightarrow>
             Inr \<lparr> summary =
                     \<lparr> total_upstream_issues = total_issues,
                       total_upstream_prs = total_prs,
                       total_downstream_tasks = total_tasks,
                       sync_efficiency = py_round efficiency 2,
                       data_period =
                         ''Last 30 days ('' @ date_iso (today - 29) @ '' to '' @ date_iso today @ '')'' \<rparr>,
                   trends = trends_found,
                   daily_metrics = metrics_data,
                   current_status =
                     \<lparr> last_sync = get_last_sync_time datetime_iso (down 31),
                       active_monitoring = True,
                       upstream_repo_status = ''Active'',
                       downstream_repo_status = ''Active'' \<rparr> \<rparr>))"

section \<open>The entry point\<close>

text \<open>What a run does to the outside, in order.\<close>

datatype effect = Print string | PrintException py_error | Fetch | WriteFile string

record process =
  effects :: "effect list"
  exit_code :: int

text \<open>
  \<open>main\<close> reads the credential first. \<open>pipeline\<close> is the \<^verbatim>\<open>try\<close> block (building the
  monitor, fetching, rendering, composing, writing the files): the effects it performs, and
  the exception that ended it, if any.
\<close>

definition main ::
  "string option \<Rightarrow> (string \<Rightarrow> effect list \<times> py_error option) \<Rightarrow> process" where
  "main GITHUB_TOKEN pipeline =
     (if \<not> truthy GITHUB_TOKEN
      then \<lparr> effects = [Print ''Error: GITHUB_TOKEN environment variable is required''],
             exit_code = 1 \<rparr>
      else (case pipeline (the GITHUB_TOKEN) of
              (performed, None) \<Rightarrow> \<lparr> effects = performed, exit_code = 0 \<rparr>
            | (performed, Some e) \<Rightarrow>
                \<lparr> effects = performed @ [PrintException e], exit_code = 1 \<rparr>))"

section \<open>The specification's wording of the classifier\<close>

text \<open>
  The specification describes the issue classifier as a table of categories in priority
  order, each with its keywords, applied to the lower-cased text \<^verbatim>\<open>title + " " + body\<close>
  (an absent body counting as empty): the first category one of whose keywords occurs in
  the text wins, and \<^verbatim>\<open>other\<close> is the fallback.
\<close>

definition spec_text :: "string \<Rightarrow> string option \<Rightarrow> string" where
  "spec_text ttl bdy = lower (ttl @ '' '' @ (case bdy of None \<Rightarrow> [] | Some b \<Rightarrow> b))"

definition spec_issue_priority :: "(string \<times> string list) list" where
  "spec_issue_priority =
     [(''bug'', [''bug'', ''error'', ''crash'', ''fix'']),
      (''feature'', [''feature'', ''enhancement'', ''add'']),
      (''documentation'', [''docs'', ''documentation'', ''readme'']),
      (''performance'', [''performance'', ''optimization'', ''speed''])]"

definition spec_first_match :: "(string \<times> string list) list \<Rightarrow> string \<Rightarrow> string" where
  "spec_first_match table text =
     (case find (\<lambda>(category, kws). \<exists>k \<in> set kws. sublist k text) table of
        None \<Rightarrow> ''other''
      | Some (category, kws) \<Rightarrow> category)"

section \<open>The specification's wording of the release cadence\<close>


section \<open>Concrete repositories\<close>

text \<open>
  The label filter of the hosting API: the issues that carry every requested label.
\<close>

definition label_query :: "issue list \<Rightarrow> string list \<Rightarrow> issue list" where
  "label_query repo ls = filter (\<lambda>i. list_all (\<lambda>l. l \<in> set (labels i)) ls) repo"

text \<open>
  Stand-ins for \<^verbatim>\<open>isoformat\<close> in the examples: the decimal digits of the day, and for a
  time the day, a \<^verbatim>\<open>T\<close> and the second of the day.
\<close>

fun decimal :: "nat \<Rightarrow> string" where
  "decimal n =
     (if n < 10 then [char_of (48 + n)] else decimal (n div 10) @ [char_of (48 + n mod 10)])"

definition date_label :: "date \<Rightarrow> string" where
  "date_label d = decimal (nat d)"

definition time_label :: "datetime \<Rightarrow> string" where
  "time_label t = decimal (nat (date_of t)) @ ''T'' @ decimal (nat (t mod 86400))"

text \<open>Day 100 starts at second 8640000.\<close>

definition issue_crash :: issue where
  "issue_crash =
     \<lparr> title = ''Crash on Start'', body = None, user_login = ''ann'',
       created_at = 8640005, closed_at = None, updated_at = 8640007, labels = [] \<rparr>"

definition issue_dark_mode :: issue where
  "issue_dark_mode =
     \<lparr> title = ''Add dark mode'', body = Some ''It would FIX my eyes'', user_login = ''bob'',
       created_at = 8640100, closed_at = Some 8650000, updated_at = 8650000, labels = [] \<rparr>"

definition issue_readme :: issue where
  "issue_readme =
     \<lparr> title = ''Update README'', body = Some [], user_login = ''ann'',
       created_at = 8640200, closed_at = None, updated_at = 8640200, labels = [] \<rparr>"

definition pull_refactor :: pull where
  "pull_refactor =
     \<lparr> pr_title = ''Refactor Parser'', pr_body = None, pr_user_login = ''bob'',
       pr_created_at = 8553600, merged = True, merged_at = Some 8640300 \<rparr>"

definition release_new :: release where
  "release_new = \<lparr> published_at = Some 8640000 \<rparr>"

definition release_draft :: release where
  "release_draft = \<lparr> published_at = None \<rparr>"

definition release_old :: release where
  "release_old = \<lparr> published_at = Some 6048000 \<rparr>"

definition task_both :: issue where
  "task_both =
     \<lparr> title = ''Track upstream change'', body = None, user_login = ''cat'',
       created_at = 8640400, closed_at = None, updated_at = 8640500,
       labels = [''upstream-sync'', ''upstream-pr''] \<rparr>"

definition task_release :: issue where
  "task_release =
     \<lparr> title = ''Adopt release'', body = None, user_login = ''cat'',
       created_at = 8553700, closed_at = Some 8553800, updated_at = 8553800,
       labels = [''upstream-release''] \<rparr>"

definition upstream_example :: repo_api where
  "upstream_example =
     \<lparr> get_issues = (\<lambda>ls s. Inr (label_query [issue_crash, issue_dark_mode, issue_readme] ls)),
       get_pulls = Inr [pull_refactor],
       get_releases = Inr [release_new, release_draft, release_old] \<rparr>"

definition downstream_example :: repo_api where
  "downstream_example =
     \<lparr> get_issues = (\<lambda>ls s. Inr (label_query [task_both, task_release] ls)),
       get_pulls = Inr [],
       get_releases = Inr [] \<rparr>"

definition failing_api :: repo_api where
  "failing_api =
     \<lparr> get_issues = (\<lambda>ls s. Inl GithubException),
       get_pulls = Inl GithubException,
       get_releases = Inl GithubException \<rparr>"

text \<open>The upstream repository is unreachable in round 3 only.\<close>

definition up_rounds :: "nat \<Rightarrow> repo_api" where
  "up_rounds n = (if n = 3 then failing_api else upstream_example)"

definition down_rounds :: "nat \<Rightarrow> repo_api" where
  "down_rounds n = downstream_example"

text \<open>Both repositories answer in every round.\<close>

definition up_steady :: "nat \<Rightarrow> repo_api" where
  "up_steady n = upstream_example"

text \<open>What the example repositories give on day 100, and the trends of the upstream one.\<close>

definition metrics_day_100 :: ActivityMetrics where
  "metrics_day_100 =
     \<lparr> date = ''100'', upstream_issues_opened = 3, upstream_issues_closed = 1,
       upstream_prs_opened = 0, upstream_prs_merged = 1, upstream_releases = 1,
       downstream_tasks_created = 1, downstream_tasks_completed = 0, sync_activities = 2 \<rparr>"

definition trends_example :: Trends where
  "trends_example =
     \<lparr> issue_categories = [(''bug'', 2), (''documentation'', 1)],
       pr_types = [(''refactor'', 1)], release_frequency = 3,
       top_contributors = [(''ann'', 2), (''bob'', 2)], complexity_trends = [] \<rparr>"


text \<open>
  Three releases listed out of publication order: day 60, day 100, day 0. The listing follows
  the creation times, and a release can be published long after it was created.
\<close>

definition release_mid :: release where
  "release_mid = \<lparr> published_at = Some 5184000 \<rparr>"

definition release_first :: release where
  "release_first = \<lparr> published_at = Some 0 \<rparr>"


text \<open>The same three releases, newest first.\<close>

definition ordered_releases :: repo_api where
  "ordered_releases =
     upstream_example \<lparr> get_releases := Inr [release_new, release_mid, release_first] \<rparr>"

text \<open>A listing that begins with a release not published yet.\<close>

definition draft_first :: repo_api where
  "draft_first = upstream_example \<lparr> get_releases := Inr [release_draft, release_old] \<rparr>"

text \<open>A rest of the program that fetches and writes, for the entry point.\<close>

definition example_pipeline :: "string \<Rightarrow> effect list \<times> py_error option" where
  "example_pipeline token =
     ([Fetch, WriteFile ''/tmp/activity_trends.png'', WriteFile ''/tmp/dashboard.html''], None)"


section \<open>Properties of the building blocks\<close>

lemma lower_append: "lower (xs @ ys) = lower xs @ lower ys"
  by (simp add: lower_def)

lemma lower_char_space: "lower_char (CHR '' '') = CHR '' ''"
  by code_simp

lemma lower_Nil: "lower [] = []"
  by (simp add: lower_def)

lemma item_text_Inr: "item_text ttl bdy = Inr (spec_text ttl bdy)"
  by (cases bdy) (simp_all add: item_text_def spec_text_def lower_def lower_char_space)

lemma issue_category_spec: "issue_category text = spec_first_match spec_issue_priority text"
  by (simp add: issue_category_def spec_first_match_def spec_issue_priority_def any_keyword_def
      list_ex_iff)

lemma issue_step_Inr:
  "issue_step t i =
     Inr (t \<lparr> issue_categories := dict_incr (issue_categories t) (issue_category (spec_text (title i) (body i))),
              top_contributors := dict_incr (top_contributors t) (user_login i) \<rparr>)"
  by (simp add: issue_step_def item_text_Inr)

lemma pr_step_Inr:
  "pr_step t pr =
     Inr (t \<lparr> pr_types := dict_incr (pr_types t) (pr_type (spec_text (pr_title pr) (pr_body pr))),
              top_contributors := dict_incr (top_contributors t) (pr_user_login pr) \<rparr>)"
  by (simp add: pr_step_def item_text_Inr)

lemma for_each_issue_step:
  "\<exists>t'. for_each issue_step xs t = Inr t' \<and>
     issue_categories t' =
       foldl dict_incr (issue_categories t) (map (\<lambda>i. issue_category (spec_text (title i) (body i))) xs) \<and>
     top_contributors t' = foldl dict_incr (top_contributors t) (map user_login xs) \<and>
     pr_types t' = pr_types t \<and> release_frequency t' = release_frequency t"
proof (induction xs arbitrary: t)
  case Nil
  show ?case by simp
next
  case (Cons x xs)
  show ?case
    using Cons.IH [of "t \<lparr> issue_categories := dict_incr (issue_categories t) (issue_category (spec_text (title x) (body x))),
              top_contributors := dict_incr (top_contributors t) (user_login x) \<rparr>"]
    by (simp add: issue_step_Inr)
qed

lemma for_each_pr_step:
  "\<exists>t'. for_each pr_step xs t = Inr t' \<and>
     pr_types t' =
       foldl dict_incr (pr_types t) (map (\<lambda>p. pr_type (spec_text (pr_title p) (pr_body p))) xs) \<and>
     top_contributors t' = foldl dict_incr (top_contributors t) (map pr_user_login xs) \<and>
     issue_categories t' = issue_categories t \<and> release_frequency t' = release_frequency t"
proof (induction xs arbitrary: t)
  case Nil
  show ?case by simp
next
  case (Cons x xs)
  show ?case
    using Cons.IH [of "t \<lparr> pr_types := dict_incr (pr_types t) (pr_type (spec_text (pr_title x) (pr_body x))),
              top_contributors := dict_incr (top_contributors t) (pr_user_login x) \<rparr>"]
    by (simp add: pr_step_Inr)
qed

lemma dict_get_incr:
  "dict_get (dict_incr d k) k' 0 = dict_get d k' 0 + (if k' = k then 1 else 0)"
  by (simp add: dict_get_def dict_incr_def dict_set_def update_conv')

lemma dict_get_foldl_incr:
  "dict_get (foldl dict_incr d ks) k 0 = dict_get d k 0 + int (length (filter (\<lambda>x. x = k) ks))"
  by (induction ks arbitrary: d) (auto simp: dict_get_incr)

lemma distinct_dict_incr: "distinct (map fst d) \<Longrightarrow> distinct (map fst (dict_incr d k))"
  by (simp add: dict_incr_def dict_set_def distinct_update)

lemma distinct_foldl_incr: "distinct (map fst d) \<Longrightarrow> distinct (map fst (foldl dict_incr d ks))"
  by (induction ks arbitrary: d) (auto simp: distinct_dict_incr)

lemma update_fresh: "k \<notin> fst ` set d \<Longrightarrow> AList.update k v d = d @ [(k, v)]"
  by (induction d) auto

lemma foldl_dict_set_distinct:
  "distinct (map fst ps) \<Longrightarrow> fst ` set d \<inter> fst ` set ps = {} \<Longrightarrow>
   foldl (\<lambda>d (k, v). dict_set d k v) d ps = d @ ps"
proof (induction ps arbitrary: d)
  case Nil
  show ?case by simp
next
  case (Cons p ps)
  obtain k v where p: "p = (k, v)" by (cases p)
  have fresh: "k \<notin> fst ` set d" using Cons.prems(2) p by auto
  have step: "dict_set d k v = d @ [(k, v)]"
    by (simp add: dict_set_def update_fresh [OF fresh])
  have "fst ` set (d @ [(k, v)]) \<inter> fst ` set ps = {}"
    using Cons.prems p by auto
  moreover have "distinct (map fst ps)" using Cons.prems(1) by simp
  ultimately have "foldl (\<lambda>d (k, v). dict_set d k v) (d @ [(k, v)]) ps = (d @ [(k, v)]) @ ps"
    by (rule Cons.IH [rotated])
  then show ?case by (simp add: p step)
qed

lemma dict_of_pairs_distinct: "distinct (map fst ps) \<Longrightarrow> dict_of_pairs ps = ps"
  using foldl_dict_set_distinct [of ps "[]"] by (simp add: dict_of_pairs_def)

lemma sorted_reverse_stable:
  "filter (\<lambda>y. f y = k) (sorted_reverse f xs) = filter (\<lambda>y. f y = k) xs"
  by (simp add: sorted_reverse_def rev_filter [symmetric] sort_key_stable)

lemma sorted_reverse_desc: "sorted_wrt (\<lambda>a b. f b \<le> f a) (sorted_reverse f xs)"
proof -
  have "sorted (map f (sort_key f (rev xs)))" by simp
  then have "sorted_wrt (\<lambda>a b. f a \<le> f b) (sort_key f (rev xs))"
    by (simp add: sorted_map)
  then show ?thesis
    by (simp add: sorted_reverse_def sorted_wrt_rev)
qed

lemma distinct_sorted_reverse:
  "distinct (map g (sorted_reverse f xs)) = distinct (map g xs)"
proof -
  have "mset (sorted_reverse f xs) = mset xs" by (simp add: sorted_reverse_def)
  then have "mset (map g (sorted_reverse f xs)) = mset (map g xs)" by simp
  then show ?thesis by (metis mset_eq_imp_distinct_iff)
qed

lemma filter_take_prefix: "prefix (filter P (take n xs)) (filter P xs)"
proof -
  have "filter P xs = filter P (take n xs) @ filter P (drop n xs)"
    by (metis append_take_drop_id filter_append)
  then show ?thesis by (metis prefixI)
qed

lemma release_step_few:
  assumes "release_step t rels = Inr t3" and "length rels < 2"
  shows "t3 = t"
  using assms by (auto simp: release_step_def)

lemma release_step_many:
  assumes "release_step t rels = Inr t3" and "2 \<le> length rels"
  shows "\<exists>latest oldest. published_at (hd rels) = Some latest \<and> published_at (last rels) = Some oldest
            \<and> t3 = t \<lparr> release_frequency :=
                 release_cadence (length rels) (timedelta_days latest oldest) \<rparr>"
proof -
  have "1 < length rels" using assms(2) by simp
  then show ?thesis
    using assms(1) by (auto simp: release_step_def Let_def split: option.splits)
qed



text \<open>A first or last release without a publication time stops the step.\<close>

lemma release_step_undated:
  assumes "2 \<le> length rels"
    and "published_at (hd rels) = None \<or> published_at (last rels) = None"
  shows "release_step t rels = Inl TypeError"
  using assms by (auto simp: release_step_def split: option.splits)

text \<open>What a normal return of the trend analysis holds, in terms of the three answers.\<close>

lemma analyze_result:
  assumes "analyze_upstream_trends up days = Inr tr"
  shows "\<exists>all_issues all_prs rels t2 t3.
     get_issues up [] Created = Inr all_issues \<and> get_pulls up = Inr all_prs \<and>
     get_releases up = Inr rels \<and>
     issue_categories tr =
       foldl dict_incr [] (map (\<lambda>i. issue_category (spec_text (title i) (body i))) (take 100 all_issues)) \<and>
     pr_types tr =
       foldl dict_incr [] (map (\<lambda>p. pr_type (spec_text (pr_title p) (pr_body p))) (take 100 all_prs)) \<and>
     top_contributors tr =
       dict_of_pairs (take 10 (sorted_reverse snd
         (foldl dict_incr [] (map user_login (take 100 all_issues) @ map pr_user_login (take 100 all_prs))))) \<and>
     release_step t2 rels = Inr t3 \<and> release_frequency t2 = 0 \<and>
     release_frequency tr = release_frequency t3"
proof -
  obtain all_issues where a: "get_issues up [] Created = Inr all_issues"
    using assms by (cases "get_issues up [] Created") (simp_all add: analyze_upstream_trends_def)
  obtain t1 where t1: "for_each issue_step (take 100 all_issues) initial_trends = Inr t1"
    and t1c: "issue_categories t1 =
       foldl dict_incr [] (map (\<lambda>i. issue_category (spec_text (title i) (body i))) (take 100 all_issues))"
    and t1u: "top_contributors t1 = foldl dict_incr [] (map user_login (take 100 all_issues))"
    and t1p: "pr_types t1 = []" and t1f: "release_frequency t1 = 0"
    using for_each_issue_step [of "take 100 all_issues" initial_trends]
    by (auto simp: initial_trends_def)
  obtain all_prs where b: "get_pulls up = Inr all_prs"
    using assms a t1 by (cases "get_pulls up") (simp_all add: analyze_upstream_trends_def)
  obtain t2 where t2: "for_each pr_step (take 100 all_prs) t1 = Inr t2"
    and t2p: "pr_types t2 =
       foldl dict_incr [] (map (\<lambda>p. pr_type (spec_text (pr_title p) (pr_body p))) (take 100 all_prs))"
    and t2u: "top_contributors t2 =
       foldl dict_incr (top_contributors t1) (map pr_user_login (take 100 all_prs))"
    and t2c: "issue_categories t2 = issue_categories t1" and t2f: "release_frequency t2 = 0"
    using for_each_pr_step [of "take 100 all_prs" t1] t1p t1f by auto
  obtain rels where c: "get_releases up = Inr rels"
    using assms a t1 b t2 by (cases "get_releases up") (simp_all add: analyze_upstream_trends_def)
  obtain t3 where t3: "release_step t2 rels = Inr t3"
    using assms a t1 b t2 c by (cases "release_step t2 rels") (simp_all add: analyze_upstream_trends_def)
  have tr: "tr = t3 \<lparr> top_contributors :=
                  dict_of_pairs (take 10 (sorted_reverse snd (top_contributors t3))) \<rparr>"
    using assms a t1 b t2 c t3 by (simp add: analyze_upstream_trends_def)
  have same: "issue_categories t3 = issue_categories t2" "pr_types t3 = pr_types t2"
    "top_contributors t3 = top_contributors t2"
  proof -
    show "issue_categories t3 = issue_categories t2"
      using release_step_few [OF t3] release_step_many [OF t3] by (cases "length rels < 2") auto
    show "pr_types t3 = pr_types t2"
      using release_step_few [OF t3] release_step_many [OF t3] by (cases "length rels < 2") auto
    show "top_contributors t3 = top_contributors t2"
      using release_step_few [OF t3] release_step_many [OF t3] by (cases "length rels < 2") auto
  qed
  have tally: "top_contributors t2 =
      foldl dict_incr [] (map user_login (take 100 all_issues) @ map pr_user_login (take 100 all_prs))"
    by (simp add: t2u t1u)
  have "get_issues up [] Created = Inr all_issues \<and> get_pulls up = Inr all_prs \<and>
     get_releases up = Inr rels \<and>
     issue_categories tr =
       foldl dict_incr [] (map (\<lambda>i. issue_category (spec_text (title i) (body i))) (take 100 all_issues)) \<and>
     pr_types tr =
       foldl dict_incr [] (map (\<lambda>p. pr_type (spec_text (pr_title p) (pr_body p))) (take 100 all_prs)) \<and>
     top_contributors tr =
       dict_of_pairs (take 10 (sorted_reverse snd
         (foldl dict_incr [] (map user_login (take 100 all_issues) @ map pr_user_login (take 100 all_prs))))) \<and>
     release_step t2 rels = Inr t3 \<and> release_frequency t2 = 0 \<and>
     release_frequency tr = release_frequency t3"
    using a b c t3 t2f
    by (simp add: tr same t2c t1c t2p tally)
  then show ?thesis by blast
qed

text \<open>With the three listings answered, the analysis is decided by the release step.\<close>

lemma analyze_by_release_step:
  assumes "get_issues up [] Created = Inr all_issues" and "get_pulls up = Inr all_prs"
    and "get_releases up = Inr rels"
  shows "\<exists>t2. release_frequency t2 = 0 \<and>
           analyze_upstream_trends up days =
             (case release_step t2 rels of
                Inl e \<Rightarrow> Inl e
              | Inr t3 \<Rightarrow>
                  Inr (t3 \<lparr> top_contributors :=
                              dict_of_pairs (take 10 (sorted_reverse snd (top_contributors t3))) \<rparr>))"
proof -
  obtain t1 where t1: "for_each issue_step (take 100 all_issues) initial_trends = Inr t1"
    and t1f: "release_frequency t1 = 0"
    using for_each_issue_step [of "take 100 all_issues" initial_trends]
    by (auto simp: initial_trends_def)
  obtain t2 where t2: "for_each pr_step (take 100 all_prs) t1 = Inr t2"
    and t2f: "release_frequency t2 = 0"
    using for_each_pr_step [of "take 100 all_prs" t1] t1f by auto
  have "analyze_upstream_trends up days =
          (case release_step t2 rels of
             Inl e \<Rightarrow> Inl e
           | Inr t3 \<Rightarrow>
               Inr (t3 \<lparr> top_contributors :=
                           dict_of_pairs (take 10 (sorted_reverse snd (top_contributors t3))) \<rparr>))"
    using assms t1 t2 by (simp add: analyze_upstream_trends_def)
  then show ?thesis using t2f by blast
qed

lemma analyze_undated_raises:
  assumes "get_issues up [] Created = Inr all_issues" and "get_pulls up = Inr all_prs"
    and "get_releases up = Inr rels" and "2 \<le> length rels"
    and "published_at (hd rels) = None \<or> published_at (last rels) = None"
  shows "analyze_upstream_trends up days = Inl TypeError"
proof -
  obtain t2 where "analyze_upstream_trends up days =
             (case release_step t2 rels of
                Inl e \<Rightarrow> Inl e
              | Inr t3 \<Rightarrow>
                  Inr (t3 \<lparr> top_contributors :=
                              dict_of_pairs (take 10 (sorted_reverse snd (top_contributors t3))) \<rparr>))"
    using analyze_by_release_step [OF assms(1,2,3)] by blast
  then show ?thesis
    by (simp add: release_step_undated [OF assms(4,5)])
qed




lemma fold_max_Max: "fold max xs (x::int) = Max (insert x (set xs))"
  using Max.set_eq_fold [of x xs] by simp

lemma sync_efficiency_of_total:
  "sync_efficiency_of a b = Inr (if 0 < b then float_mul (int_truediv a b) 100 else 0)"
  by (simp add: sync_efficiency_of_def py_truediv_def)

lemma round_half_even_close: "\<bar>of_int (round_half_even x) - x\<bar> \<le> 1 / 2"
proof -
  define r where "r = x - of_int \<lfloor>x\<rfloor>"
  have lo: "0 \<le> r" and hi: "r < 1"
    unfolding r_def by linarith+
  have x: "x = of_int \<lfloor>x\<rfloor> + r"
    by (simp add: r_def)
  consider "r < 1 / 2" | "1 / 2 < r" | "r = 1 / 2"
    by linarith
  then show ?thesis
  proof cases
    case 1
    then have "round_half_even x = \<lfloor>x\<rfloor>"
      by (simp add: round_half_even_def Let_def r_def)
    then show ?thesis using lo 1 x by linarith
  next
    case 2
    then have "round_half_even x = \<lfloor>x\<rfloor> + 1"
      by (simp add: round_half_even_def Let_def r_def)
    then have "of_int (round_half_even x) - x = 1 - r"
      using x by simp
    then show ?thesis using hi 2 by linarith
  next
    case 3
    then have "round_half_even x = \<lfloor>x\<rfloor> \<or> round_half_even x = \<lfloor>x\<rfloor> + 1"
      by (simp add: round_half_even_def Let_def r_def)
    then have "of_int (round_half_even x) - x = - r \<or> of_int (round_half_even x) - x = 1 - r"
      using x by auto
    then show ?thesis using 3 by auto
  qed
qed

text \<open>
  The rounded value is the double nearest to a number of two decimal places, itself the
  nearest such number to the value rounded.
\<close>

lemma py_round_two_places:
  "\<exists>k. py_round x 2 = to_double (of_int k / 100) \<and> \<bar>of_int k / 100 - x\<bar> \<le> 1 / 200"
proof -
  have "\<bar>of_int (round_half_even (x * 100)) - x * 100\<bar> \<le> 1 / 2"
    by (rule round_half_even_close)
  then have "\<bar>of_int (round_half_even (x * 100)) / 100 - x\<bar> \<le> 1 / 200"
    by (simp add: abs_if field_simps split: if_splits)
  moreover have "py_round x 2 = to_double (of_int (round_half_even (x * 100)) / 100)"
    by (simp add: py_round_def)
  ultimately show ?thesis by blast
qed

lemma py_round_zero: "py_round 0 n = 0"
  by (simp add: py_round_def round_half_even_def to_double_def)

lemma collect_days_concat:
  "collect_days isoformat up down today days acc =
     acc @ concat (map (\<lambda>i. case collect_daily_metrics isoformat (up i) (down i) (today - int i) of
                               Inl e \<Rightarrow> [] | Inr m \<Rightarrow> [m]) days)"
  by (induction days arbitrary: acc) (auto split: sum.splits)

text \<open>The data generation returns whenever the trend analysis does.\<close>

lemma generate_dashboard_data_Inr:
  assumes "analyze_upstream_trends (up 30) 30 = Inr tr"
  shows "\<exists>dd. generate_dashboard_data date_iso datetime_iso up down today = Inr dd
    \<and> daily_metrics dd = collect_days date_iso up down today [0..<30] []
    \<and> trends dd = tr
    \<and> total_upstream_issues (summary dd) = sum_list (map upstream_issues_opened (daily_metrics dd))
    \<and> total_upstream_prs (summary dd) = sum_list (map upstream_prs_opened (daily_metrics dd))
    \<and> total_downstream_tasks (summary dd) = sum_list (map downstream_tasks_created (daily_metrics dd))
    \<and> sync_efficiency (summary dd) =
        py_round (if 0 < total_upstream_issues (summary dd)
                  then float_mul (int_truediv (total_downstream_tasks (summary dd))
                                    (total_upstream_issues (summary dd))) 100
                  else 0) 2
    \<and> last_sync (current_status dd) = get_last_sync_time datetime_iso (down 31)"
  using assms
  by (simp add: generate_dashboard_data_def Let_def sync_efficiency_of_total)

lemma filter_raise_merged_on:
  "\<forall>pr \<in> set prs. merged pr \<longrightarrow> merged_at pr \<noteq> None \<Longrightarrow>
   filter_raise (merged_on d) prs =
     Inr (filter (\<lambda>pr. merged pr \<and> (\<exists>t. merged_at pr = Some t \<and> date_of t = d)) prs)"
  by (induction prs) (auto simp: merged_on_def)

lemma for_each_sync_step:
  "\<forall>l \<in> set ls. get_issues down [l] Updated = Inr (answer l) \<Longrightarrow>
   for_each (sync_step down d) ls n =
     Inr (n + (\<Sum>l\<leftarrow>ls. int (length (filter (updated_on d) (answer l)))))"
  by (induction ls arbitrary: n) (simp_all add: sync_step_def)

lemma collect_daily_metrics_sync:
  "collect_daily_metrics isoformat up down d = Inr m \<Longrightarrow>
   for_each (sync_step down d) sync_labels 0 = Inr (sync_activities m)"
  by (auto simp: collect_daily_metrics_def split: sum.splits)

lemma length_filter_mset:
  "mset xs = mset ys \<Longrightarrow> length (filter P xs) = length (filter P ys)"
proof -
  assume "mset xs = mset ys"
  then have "size (filter_mset P (mset xs)) = size (filter_mset P (mset ys))" by simp
  then show ?thesis by (simp only: mset_filter [symmetric] size_mset)
qed

lemma count_label_carriers:
  "(\<Sum>i\<leftarrow>filter U repo. if l \<in> set (labels i) then 1 else 0) =
     int (length (filter (\<lambda>i. l \<in> set (labels i) \<and> U i) repo))"
  by (induction repo) auto

lemma sum_labels_swap:
  "(\<Sum>l\<leftarrow>ls. int (length (filter (\<lambda>i. l \<in> set (labels i) \<and> U i) repo))) =
   (\<Sum>i\<leftarrow>filter U repo. int (length (filter (\<lambda>l. l \<in> set (labels i)) ls)))"
proof (induction ls)
  case Nil
  show ?case by simp
next
  case (Cons l ls)
  have "(\<Sum>i\<leftarrow>filter U repo. int (length (filter (\<lambda>l. l \<in> set (labels i)) (l # ls)))) =
        (\<Sum>i\<leftarrow>filter U repo. (if l \<in> set (labels i) then 1 else 0)
                                 + int (length (filter (\<lambda>l. l \<in> set (labels i)) ls)))"
    by (rule arg_cong [where f = sum_list]) simp
  also have "\<dots> = (\<Sum>i\<leftarrow>filter U repo. if l \<in> set (labels i) then 1 else 0)
                 + (\<Sum>i\<leftarrow>filter U repo. int (length (filter (\<lambda>l. l \<in> set (labels i)) ls)))"
    by (simp add: sum_list_addf)
  finally show ?case
    by (simp add: count_label_carriers Cons.IH)
qed

section \<open>The example repositories, evaluated\<close>

lemma example_trends: "analyze_upstream_trends upstream_example 30 = Inr trends_example"
  by code_simp

lemma example_day_100:
  "collect_daily_metrics date_label upstream_example downstream_example 100 = Inr metrics_day_100"
  by code_simp

lemma example_upstream_issues:
  "get_issues upstream_example [] Created = Inr [issue_crash, issue_dark_mode, issue_readme]"
  by (simp add: upstream_example_def label_query_def)




lemma example_ordered:
  "analyze_upstream_trends ordered_releases 30
     = Inr (trends_example \<lparr> release_frequency := 2026619832316723 / 2251799813685248 \<rparr>)"
  by code_simp

lemma example_draft_first: "analyze_upstream_trends draft_first 30 = Inl TypeError"
  by code_simp



lemma example_upstream_pulls: "get_pulls upstream_example = Inr [pull_refactor]"
  by (simp add: upstream_example_def)

lemma example_tally:
  "[(''ann'', 2), (''bob'', 2)] =
     foldl dict_incr []
       (map user_login (take 100 [issue_crash, issue_dark_mode, issue_readme])
        @ map pr_user_login (take 100 [pull_refactor]))"
  by code_simp

lemma example_round_30: "analyze_upstream_trends (up_rounds 30) 30 = Inr trends_example"
  by (simp add: up_rounds_def example_trends)

lemma example_round_3:
  "collect_daily_metrics date_label (up_rounds 3) (down_rounds 3) (100 - int 3) = Inl GithubException"
  by code_simp

lemma example_29_days:
  "length (concat (map (\<lambda>i. case collect_daily_metrics date_label (up_rounds i) (down_rounds i)
                                    (100 - int i) of Inl e \<Rightarrow> [] | Inr m \<Rightarrow> [m]) [0..<30])) = 29"
  by code_simp

lemma example_steady_30: "analyze_upstream_trends (up_steady 30) 30 = Inr trends_example"
  by (simp add: up_steady_def example_trends)

lemma example_issues_opened:
  "sum_list (map upstream_issues_opened
     (collect_days date_label up_steady down_rounds 100 [0..<30] [])) = 3"
  by code_simp

lemma example_tasks_created:
  "sum_list (map downstream_tasks_created
     (collect_days date_label up_steady down_rounds 100 [0..<30] [])) = 1"
  by code_simp

lemma example_no_issue_opened:
  "sum_list (map upstream_issues_opened
     (collect_days date_label up_steady down_rounds 1000 [0..<30] [])) = 0"
  by code_simp

lemma round_a_third:
  "py_round (float_mul (int_truediv 1 3) 100) 2 = 2345390243441541 / 70368744177664"
  by code_simp

lemma double_33_33: "to_double (3333 / 100) = 2345390243441541 / 70368744177664"
  by code_simp

lemma product_a_third: "float_mul (int_truediv 1 3) 100 = 2345624805922133 / 70368744177664"
  by code_simp

lemma round_23_of_160:
  "float_mul (int_truediv 23 160) 100 = 8092405580431359 / 562949953421312
   \<and> py_round (float_mul (int_truediv 23 160) 100) 2 = to_double (1437 / 100)"
  by code_simp

lemma example_downstream_tasks:
  "get_issues downstream_example [''upstream-sync''] Created = Inr [task_both]"
  by (simp add: downstream_example_def label_query_def task_both_def task_release_def)

lemma example_label_answers:
  "\<forall>l \<in> set sync_labels.
     get_issues downstream_example [l] Updated = Inr (label_query [task_both, task_release] [l])"
  by (simp add: downstream_example_def)

lemma example_label_lists:
  "\<forall>l \<in> set sync_labels.
     get_issues downstream_example [l] Updated = Inr (label_query [task_both, task_release] [l])
     \<and> mset (label_query [task_both, task_release] [l])
         = mset (filter (\<lambda>i. l \<in> set (labels i)) [task_both, task_release])"
  by (simp add: downstream_example_def label_query_def)

section \<open>The claims\<close>

text \<open>
  C1. Issue classification is first-match-wins over the priority order bug, feature,
  documentation, performance, with \<^verbatim>\<open>other\<close> as the fallback: the if-chain of the analyzer
  computes the first category of the specification's table one of whose keywords occurs in
  the text; the category counted for an issue is that category of its lower-cased
  title-plus-body text; a text with a bug keyword and a feature keyword is a bug; and after
  an analysis that returns, the count stored under a category is the number of inspected
  issues (the first 100 listed) of that category.
\<close>

theorem issue_classification_first_match:
  "issue_category content = spec_first_match spec_issue_priority content
   \<and> issue_step t i =
       Inr (t \<lparr> issue_categories :=
                  dict_incr (issue_categories t)
                    (spec_first_match spec_issue_priority (spec_text (title i) (body i))),
                top_contributors := dict_incr (top_contributors t) (user_login i) \<rparr>)
   \<and> (k1 \<in> set [''bug'', ''error'', ''crash'', ''fix''] \<and> sublist k1 content
        \<and> k2 \<in> set [''feature'', ''enhancement'', ''add''] \<and> sublist k2 content
        \<longrightarrow> issue_category content = ''bug'')
   \<and> (analyze_upstream_trends up days = Inr tr \<and> get_issues up [] Created = Inr all_issues
        \<longrightarrow> dict_get (issue_categories tr) c 0 =
              int (length (filter
                (\<lambda>i. spec_first_match spec_issue_priority (spec_text (title i) (body i)) = c)
                (take 100 all_issues))))"
proof -
  have one: "issue_category content = spec_first_match spec_issue_priority content"
    by (rule issue_category_spec)
  have two: "issue_step t i =
       Inr (t \<lparr> issue_categories :=
                  dict_incr (issue_categories t)
                    (spec_first_match spec_issue_priority (spec_text (title i) (body i))),
                top_contributors := dict_incr (top_contributors t) (user_login i) \<rparr>)"
    by (simp add: issue_step_Inr issue_category_spec)
  have three: "issue_category content = ''bug''"
    if "k1 \<in> set [''bug'', ''error'', ''crash'', ''fix'']" and "sublist k1 content"
  proof -
    have "any_keyword content [''bug'', ''error'', ''crash'', ''fix'']"
      unfolding any_keyword_def list_ex_iff using that by blast
    then show ?thesis by (simp add: issue_category_def)
  qed
  have four: "dict_get (issue_categories tr) c 0 =
              int (length (filter
                (\<lambda>i. spec_first_match spec_issue_priority (spec_text (title i) (body i)) = c)
                (take 100 all_issues)))"
    if a: "analyze_upstream_trends up days = Inr tr" and b: "get_issues up [] Created = Inr all_issues"
  proof -
    have "issue_categories tr =
       foldl dict_incr [] (map (\<lambda>i. issue_category (spec_text (title i) (body i))) (take 100 all_issues))"
      using analyze_result [OF a] b by auto
    moreover have "dict_get [] c (0::int) = 0"
      by (simp add: dict_get_def)
    ultimately show ?thesis
      by (simp add: dict_get_foldl_incr filter_map comp_def issue_category_spec)
  qed
  show ?thesis using one two three four by blast
qed

theorem issue_classification_first_match_witness:
  "''fix'' \<in> set [''bug'', ''error'', ''crash'', ''fix'']
   \<and> sublist ''fix'' (spec_text (title issue_dark_mode) (body issue_dark_mode))
   \<and> ''add'' \<in> set [''feature'', ''enhancement'', ''add'']
   \<and> sublist ''add'' (spec_text (title issue_dark_mode) (body issue_dark_mode))
   \<and> issue_category (spec_text (title issue_dark_mode) (body issue_dark_mode)) = ''bug''
   \<and> analyze_upstream_trends upstream_example 30 = Inr trends_example
   \<and> get_issues upstream_example [] Created = Inr [issue_crash, issue_dark_mode, issue_readme]
   \<and> dict_get (issue_categories trends_example) ''bug'' 0 = 2"
proof -
  have k1: "''fix'' \<in> set [''bug'', ''error'', ''crash'', ''fix'']"
    and k2: "''add'' \<in> set [''feature'', ''enhancement'', ''add'']"
    by simp_all
  have s1: "sublist ''fix'' (spec_text (title issue_dark_mode) (body issue_dark_mode))"
    and s2: "sublist ''add'' (spec_text (title issue_dark_mode) (body issue_dark_mode))"
    by code_simp+
  have n: "int (length (filter
              (\<lambda>i. spec_first_match spec_issue_priority (spec_text (title i) (body i)) = ''bug'')
              (take 100 [issue_crash, issue_dark_mode, issue_readme]))) = 2"
    by code_simp
  note T = issue_classification_first_match [where content = "spec_text (title issue_dark_mode) (body issue_dark_mode)"
      and ?k1.0 = "''fix''" and ?k2.0 = "''add''" and up = upstream_example and days = 30
      and tr = trends_example and all_issues = "[issue_crash, issue_dark_mode, issue_readme]"
      and c = "''bug''"]
  have b: "issue_category (spec_text (title issue_dark_mode) (body issue_dark_mode)) = ''bug''"
    using T k1 k2 s1 s2 by blast
  have g: "dict_get (issue_categories trends_example) ''bug'' 0 = 2"
    using T example_trends example_upstream_issues n by presburger
  show ?thesis
    using k1 k2 s1 s2 b g example_trends example_upstream_issues by blast
qed

text \<open>
  C2, as amended. Whenever the trend analysis returns, the data generation returns (no
  division error is raised); the totals of the summary are the sums over the collected
  daily records; the sync efficiency of the summary is tasks created divided by issues
  opened, times 100, in double-precision arithmetic, rounded to two decimal places: it is
  the double nearest to a number of hundredths that lies within 0.005 of that product; and
  it is 0 when no upstream issue was opened.
\<close>

theorem sync_efficiency_rounded:
  assumes "analyze_upstream_trends (up 30) 30 = Inr tr"
  shows "\<exists>dd. generate_dashboard_data date_iso datetime_iso up down today = Inr dd
    \<and> total_downstream_tasks (summary dd) = sum_list (map downstream_tasks_created (daily_metrics dd))
    \<and> total_upstream_issues (summary dd) = sum_list (map upstream_issues_opened (daily_metrics dd))
    \<and> (0 < total_upstream_issues (summary dd) \<longrightarrow>
          sync_efficiency (summary dd) =
            py_round (float_mul (int_truediv (total_downstream_tasks (summary dd))
                                   (total_upstream_issues (summary dd))) 100) 2
          \<and> (\<exists>k. sync_efficiency (summary dd) = to_double (of_int k / 100)
                \<and> \<bar>of_int k / 100
                     - float_mul (int_truediv (total_downstream_tasks (summary dd))
                                    (total_upstream_issues (summary dd))) 100\<bar> \<le> 1 / 200))
    \<and> (total_upstream_issues (summary dd) \<le> 0 \<longrightarrow> sync_efficiency (summary dd) = 0)"
proof -
  obtain dd where g: "generate_dashboard_data date_iso datetime_iso up down today = Inr dd"
    and t: "total_downstream_tasks (summary dd) = sum_list (map downstream_tasks_created (daily_metrics dd))"
    and i: "total_upstream_issues (summary dd) = sum_list (map upstream_issues_opened (daily_metrics dd))"
    and e: "sync_efficiency (summary dd) =
        py_round (if 0 < total_upstream_issues (summary dd)
                  then float_mul (int_truediv (total_downstream_tasks (summary dd))
                                    (total_upstream_issues (summary dd))) 100
                  else 0) 2"
    using assms
      generate_dashboard_data_Inr [where up = up and tr = tr and date_iso = date_iso
        and datetime_iso = datetime_iso and down = down and today = today]
    by blast
  define product where
    "product = float_mul (int_truediv (total_downstream_tasks (summary dd))
                            (total_upstream_issues (summary dd))) 100"
  have pos: "0 < total_upstream_issues (summary dd) \<longrightarrow>
          sync_efficiency (summary dd) = py_round product 2
          \<and> (\<exists>k. sync_efficiency (summary dd) = to_double (of_int k / 100)
                \<and> \<bar>of_int k / 100 - product\<bar> \<le> 1 / 200)"
    using e py_round_two_places [of product] by (simp add: product_def)
  have zero: "total_upstream_issues (summary dd) \<le> 0 \<longrightarrow> sync_efficiency (summary dd) = 0"
    using e by (simp add: py_round_zero)
  show ?thesis
    using g t i pos zero unfolding product_def by blast
qed

theorem sync_efficiency_rounded_witness:
  "analyze_upstream_trends (up_steady 30) 30 = Inr trends_example
   \<and> map_sum id (total_upstream_issues \<circ> summary)
       (generate_dashboard_data date_label time_label up_steady down_rounds 100) = Inr 3
   \<and> map_sum id (sync_efficiency \<circ> summary)
       (generate_dashboard_data date_label time_label up_steady down_rounds 100)
       = Inr (py_round (float_mul (int_truediv 1 3) 100) 2)
   \<and> map_sum id (total_upstream_issues \<circ> summary)
       (generate_dashboard_data date_label time_label up_steady down_rounds 1000) = Inr 0
   \<and> map_sum id (sync_efficiency \<circ> summary)
       (generate_dashboard_data date_label time_label up_steady down_rounds 1000) = Inr 0"
proof -
  obtain dd where g: "generate_dashboard_data date_label time_label up_steady down_rounds 100 = Inr dd"
    and t: "total_downstream_tasks (summary dd) = sum_list (map downstream_tasks_created (daily_metrics dd))"
    and i: "total_upstream_issues (summary dd) = sum_list (map upstream_issues_opened (daily_metrics dd))"
    and e: "0 < total_upstream_issues (summary dd) \<longrightarrow>
          sync_efficiency (summary dd) =
            py_round (float_mul (int_truediv (total_downstream_tasks (summary dd))
                                   (total_upstream_issues (summary dd))) 100) 2"
    using example_steady_30
      sync_efficiency_rounded [where up = up_steady and tr = trends_example
        and date_iso = date_label and datetime_iso = time_label and down = down_rounds
        and today = 100]
    by blast
  obtain dd' where g': "generate_dashboard_data date_label time_label up_steady down_rounds 1000 = Inr dd'"
    and i': "total_upstream_issues (summary dd') = sum_list (map upstream_issues_opened (daily_metrics dd'))"
    and z: "total_upstream_issues (summary dd') \<le> 0 \<longrightarrow> sync_efficiency (summary dd') = 0"
    using example_steady_30
      sync_efficiency_rounded [where up = up_steady and tr = trends_example
        and date_iso = date_label and datetime_iso = time_label and down = down_rounds
        and today = 1000]
    by blast
  obtain d2 where g2: "generate_dashboard_data date_label time_label up_steady down_rounds 100 = Inr d2"
    and m2: "daily_metrics d2 = collect_days date_label up_steady down_rounds 100 [0..<30] []"
    using example_steady_30
      generate_dashboard_data_Inr [where up = up_steady and tr = trends_example
        and date_iso = date_label and datetime_iso = time_label and down = down_rounds
        and today = 100]
    by blast
  have "Inr dd = (Inr d2 :: py_error + DashboardData)"
    using g g2 by (rule trans [OF sym])
  then have m: "daily_metrics dd = collect_days date_label up_steady down_rounds 100 [0..<30] []"
    using m2 by simp
  obtain d3 where g3: "generate_dashboard_data date_label time_label up_steady down_rounds 1000 = Inr d3"
    and m3: "daily_metrics d3 = collect_days date_label up_steady down_rounds 1000 [0..<30] []"
    using example_steady_30
      generate_dashboard_data_Inr [where up = up_steady and tr = trends_example
        and date_iso = date_label and datetime_iso = time_label and down = down_rounds
        and today = 1000]
    by blast
  have "Inr dd' = (Inr d3 :: py_error + DashboardData)"
    using g' g3 by (rule trans [OF sym])
  then have m': "daily_metrics dd' = collect_days date_label up_steady down_rounds 1000 [0..<30] []"
    using m3 by simp
  have i3: "total_upstream_issues (summary dd) = 3"
    by (simp add: i m example_issues_opened)
  have t1: "total_downstream_tasks (summary dd) = 1"
    by (simp add: t m example_tasks_created)
  have e3: "sync_efficiency (summary dd) = py_round (float_mul (int_truediv 1 3) 100) 2"
    using e i3 t1 by simp
  have i0: "total_upstream_issues (summary dd') = 0"
    by (simp add: i' m' example_no_issue_opened)
  have e0: "sync_efficiency (summary dd') = 0"
    using z i0 by simp
  show ?thesis
    using example_steady_30 by (simp add: g g' i3 e3 i0 e0)
qed

text \<open>
  The summary does not hold the product itself: with one task created and three issues
  opened on day 100 it holds the double 33.33, which is neither the double product of a
  third and 100 nor a third of 100.
\<close>

theorem sync_efficiency_unrounded_counterexample:
  "map_sum id (total_downstream_tasks \<circ> summary)
     (generate_dashboard_data date_label time_label up_steady down_rounds 100) = Inr 1
   \<and> map_sum id (total_upstream_issues \<circ> summary)
     (generate_dashboard_data date_label time_label up_steady down_rounds 100) = Inr 3
   \<and> map_sum id (sync_efficiency \<circ> summary)
     (generate_dashboard_data date_label time_label up_steady down_rounds 100)
       = Inr (to_double (3333 / 100))
   \<and> map_sum id (sync_efficiency \<circ> summary)
     (generate_dashboard_data date_label time_label up_steady down_rounds 100)
       \<noteq> Inr (float_mul (int_truediv 1 3) 100)
   \<and> map_sum id (sync_efficiency \<circ> summary)
     (generate_dashboard_data date_label time_label up_steady down_rounds 100)
       \<noteq> Inr (of_int 1 / of_int 3 * 100)"
proof -
  obtain dd where g: "generate_dashboard_data date_label time_label up_steady down_rounds 100 = Inr dd"
    and m: "daily_metrics dd = collect_days date_label up_steady down_rounds 100 [0..<30] []"
    and i: "total_upstream_issues (summary dd) = sum_list (map upstream_issues_opened (daily_metrics dd))"
    and t: "total_downstream_tasks (summary dd) = sum_list (map downstream_tasks_created (daily_metrics dd))"
    and e: "sync_efficiency (summary dd) =
        py_round (if 0 < total_upstream_issues (summary dd)
                  then float_mul (int_truediv (total_downstream_tasks (summary dd))
                                    (total_upstream_issues (summary dd))) 100
                  else 0) 2"
    using example_steady_30
      generate_dashboard_data_Inr [where up = up_steady and tr = trends_example
        and date_iso = date_label and datetime_iso = time_label and down = down_rounds
        and today = 100]
    by blast
  have i3: "total_upstream_issues (summary dd) = 3"
    by (simp add: i m example_issues_opened)
  have t1: "total_downstream_tasks (summary dd) = 1"
    by (simp add: t m example_tasks_created)
  have "sync_efficiency (summary dd) = py_round (float_mul (int_truediv 1 3) 100) 2"
    by (simp add: e i3 t1)
  then have e3: "sync_efficiency (summary dd) = 2345390243441541 / 70368744177664"
    by (simp only: round_a_third)
  have n1: "(2345390243441541 / 70368744177664 :: rat) \<noteq> 2345624805922133 / 70368744177664"
    by simp
  have n2: "(2345390243441541 / 70368744177664 :: rat) \<noteq> of_int 1 / of_int 3 * 100"
    by simp
  show ?thesis
    using n1 n2 by (simp add: g i3 t1 e3 double_33_33 product_a_third)
qed




text \<open>
  C4. After an analysis that returns, the contributor mapping has at most 10 entries (as
  many as there are contributors, if fewer), all taken from the tally of the authors of the
  inspected issues and pull requests; no contributor appears twice; the counts descend; and
  the entries of one count are the first ones of that count in the tally, in the tally's
  (insertion) order.
\<close>

theorem top_contributors_ranking:
  assumes "analyze_upstream_trends up days = Inr tr"
    and "get_issues up [] Created = Inr all_issues" and "get_pulls up = Inr all_prs"
    and "tally = foldl dict_incr []
           (map user_login (take 100 all_issues) @ map pr_user_login (take 100 all_prs))"
  shows "length (top_contributors tr) \<le> 10
    \<and> length (top_contributors tr) = min 10 (length tally)
    \<and> set (top_contributors tr) \<subseteq> set tally
    \<and> distinct (map fst (top_contributors tr))
    \<and> sorted_wrt (\<lambda>a b. snd b \<le> snd a) (top_contributors tr)
    \<and> prefix (filter (\<lambda>e. snd e = n) (top_contributors tr)) (filter (\<lambda>e. snd e = n) tally)"
proof -
  let ?ranked = "take 10 (sorted_reverse snd tally)"
  have raw: "top_contributors tr = dict_of_pairs ?ranked"
    using analyze_result [OF assms(1)] assms(2,3,4) by auto
  have "distinct (map fst tally)"
    unfolding assms(4) by (rule distinct_foldl_incr) simp
  then have "distinct (map fst (sorted_reverse snd tally))"
    by (simp add: distinct_sorted_reverse)
  then have d: "distinct (map fst ?ranked)"
    by (simp add: take_map [symmetric] distinct_take)
  have eq: "top_contributors tr = ?ranked"
    by (simp add: raw dict_of_pairs_distinct [OF d])
  have len: "length (sorted_reverse snd tally) = length tally"
    by (simp add: sorted_reverse_def)
  have elems: "set (sorted_reverse snd tally) = set tally"
    by (simp add: sorted_reverse_def)
  have s: "sorted_wrt (\<lambda>a b. snd b \<le> snd a) ?ranked"
    by (rule sorted_wrt_take) (rule sorted_reverse_desc)
  have p: "prefix (filter (\<lambda>e. snd e = n) ?ranked) (filter (\<lambda>e. snd e = n) tally)"
    using filter_take_prefix [of "\<lambda>e. snd e = n" 10 "sorted_reverse snd tally"]
    by (simp add: sorted_reverse_stable)
  have sub: "set ?ranked \<subseteq> set tally"
    using set_take_subset [of 10 "sorted_reverse snd tally"] elems by simp
  show ?thesis
    using d s p sub by (simp add: eq len)
qed

theorem top_contributors_ranking_witness:
  "analyze_upstream_trends upstream_example 30 = Inr trends_example
   \<and> get_issues upstream_example [] Created = Inr [issue_crash, issue_dark_mode, issue_readme]
   \<and> get_pulls upstream_example = Inr [pull_refactor]
   \<and> top_contributors trends_example = [(''ann'', 2), (''bob'', 2)]
   \<and> length (top_contributors trends_example) \<le> 10
   \<and> length (top_contributors trends_example) = min 10 (length [(''ann'', 2::int), (''bob'', 2)])
   \<and> distinct (map fst (top_contributors trends_example))
   \<and> sorted_wrt (\<lambda>a b. snd b \<le> snd a) (top_contributors trends_example)
   \<and> prefix (filter (\<lambda>e. snd e = 2) (top_contributors trends_example))
        (filter (\<lambda>e. snd e = 2) [(''ann'', 2), (''bob'', 2)])"
proof -
  note T = top_contributors_ranking [OF example_trends example_upstream_issues
      example_upstream_pulls example_tally, where n = 2]
  have t: "top_contributors trends_example = [(''ann'', 2), (''bob'', 2)]"
    by (simp add: trends_example_def)
  show ?thesis
    using T t example_trends example_upstream_issues example_upstream_pulls by blast
qed

text \<open>
  C5. Whenever the trend analysis returns, the data generation returns, and its daily series
  holds, in the order of the loop, exactly the records of the days whose collection
  returned: a day whose collection raised is left out and the later days are still
  collected.
\<close>

theorem day_failure_skipped:
  assumes "analyze_upstream_trends (up 30) 30 = Inr tr"
  shows "\<exists>dd. generate_dashboard_data date_iso datetime_iso up down today = Inr dd
    \<and> daily_metrics dd =
        concat (map (\<lambda>i. case collect_daily_metrics date_iso (up i) (down i) (today - int i) of
                            Inl e \<Rightarrow> [] | Inr m \<Rightarrow> [m]) [0..<30])"
  using assms
    generate_dashboard_data_Inr [where up = up and tr = tr and date_iso = date_iso
      and datetime_iso = datetime_iso and down = down and today = today]
  by (auto simp: collect_days_concat)

theorem day_failure_skipped_witness:
  "analyze_upstream_trends (up_rounds 30) 30 = Inr trends_example
   \<and> collect_daily_metrics date_label (up_rounds 3) (down_rounds 3) (100 - int 3)
       = Inl GithubException
   \<and> map_sum id (length \<circ> daily_metrics)
       (generate_dashboard_data date_label time_label up_rounds down_rounds 100) = Inr 29"
proof -
  obtain dd where g: "generate_dashboard_data date_label time_label up_rounds down_rounds 100 = Inr dd"
    and m: "daily_metrics dd =
        concat (map (\<lambda>i. case collect_daily_metrics date_label (up_rounds i) (down_rounds i)
                                  (100 - int i) of Inl e \<Rightarrow> [] | Inr m \<Rightarrow> [m]) [0..<30])"
    using example_round_30
      day_failure_skipped [where up = up_rounds and tr = trends_example and date_iso = date_label
        and datetime_iso = time_label and down = down_rounds and today = 100]
    by blast
  have "map_sum id (length \<circ> daily_metrics)
       (generate_dashboard_data date_label time_label up_rounds down_rounds 100) = Inr 29"
    by (simp add: g m example_29_days)
  then show ?thesis
    using example_round_30 example_round_3 by blast
qed

text \<open>
  C6. Without the credential, the run prints the error, exits with status 1, fetches
  nothing and writes no file, whatever the rest of the program would do.
\<close>

theorem missing_credential_exits:
  "main None pipeline =
     \<lparr> effects = [Print ''Error: GITHUB_TOKEN environment variable is required''], exit_code = 1 \<rparr>
   \<and> exit_code (main None pipeline) = 1
   \<and> Fetch \<notin> set (effects (main None pipeline))
   \<and> WriteFile path \<notin> set (effects (main None pipeline))"
  by (simp add: main_def)

theorem missing_credential_exits_witness:
  "main None example_pipeline =
     \<lparr> effects = [Print ''Error: GITHUB_TOKEN environment variable is required''], exit_code = 1 \<rparr>
   \<and> exit_code (main None example_pipeline) = 1
   \<and> Fetch \<notin> set (effects (main None example_pipeline))
   \<and> WriteFile ''/tmp/dashboard.html'' \<notin> set (effects (main None example_pipeline))
   \<and> Fetch \<in> set (effects (main (Some ''token'') example_pipeline))"
proof -
  have "Fetch \<in> set (effects (main (Some ''token'') example_pipeline))"
    by (simp add: main_def example_pipeline_def)
  then show ?thesis
    using missing_credential_exits [of example_pipeline "''/tmp/dashboard.html''"] by blast
qed

text \<open>
  C7. Whenever the calls of a day are answered and every merged pull request carries its
  merge time, the collection of that day returns, whatever timestamps are missing; the
  closed issues, completed tasks and releases it counts are exactly those whose timestamp
  is present and falls on the day, so that an issue without \<^verbatim>\<open>closed_at\<close> and a release
  without \<^verbatim>\<open>published_at\<close> are counted for no day.
\<close>

theorem null_timestamps_not_counted:
  assumes "get_issues up [] Created = Inr upstream_issues"
    and "get_pulls up = Inr upstream_prs"
    and "\<forall>pr \<in> set upstream_prs. merged pr \<longrightarrow> merged_at pr \<noteq> None"
    and "get_releases up = Inr releases"
    and "get_issues down [''upstream-sync''] Created = Inr downstream_issues"
    and "\<forall>l \<in> set sync_labels. get_issues down [l] Updated = Inr (answer l)"
  shows "\<exists>m. collect_daily_metrics isoformat up down d = Inr m
    \<and> upstream_issues_closed m =
        int (length (filter (\<lambda>i. \<exists>t. closed_at i = Some t \<and> date_of t = d) upstream_issues))
    \<and> downstream_tasks_completed m =
        int (length (filter (\<lambda>i. \<exists>t. closed_at i = Some t \<and> date_of t = d) downstream_issues))
    \<and> upstream_releases m =
        int (length (filter (\<lambda>r. \<exists>t. published_at r = Some t \<and> date_of t = d) releases))
    \<and> upstream_issues_closed m
        = int (length (filter (closed_on d) (filter (\<lambda>i. closed_at i \<noteq> None) upstream_issues)))
    \<and> downstream_tasks_completed m
        = int (length (filter (closed_on d) (filter (\<lambda>i. closed_at i \<noteq> None) downstream_issues)))
    \<and> upstream_releases m
        = int (length (filter (published_on d) (filter (\<lambda>r. published_at r \<noteq> None) releases)))"
proof -
  have c: "closed_on d = (\<lambda>i. \<exists>t. closed_at i = Some t \<and> date_of t = d)"
    by (rule ext) (simp add: closed_on_def split: option.splits)
  have p: "published_on d = (\<lambda>r. \<exists>t. published_at r = Some t \<and> date_of t = d)"
    by (rule ext) (simp add: published_on_def split: option.splits)
  have c': "filter (closed_on d) (filter (\<lambda>i. closed_at i \<noteq> None) xs) = filter (closed_on d) xs" for xs
    by (induction xs) (auto simp: closed_on_def)
  have p': "filter (published_on d) (filter (\<lambda>r. published_at r \<noteq> None) xs) = filter (published_on d) xs" for xs
    by (induction xs) (auto simp: published_on_def)
  define m where "m =
      \<lparr> date = isoformat d,
        upstream_issues_opened = int (length (filter (created_on d) upstream_issues)),
        upstream_issues_closed = int (length (filter (closed_on d) upstream_issues)),
        upstream_prs_opened = int (length (filter (pr_created_on d) upstream_prs)),
        upstream_prs_merged =
          int (length (filter (\<lambda>pr. merged pr \<and> (\<exists>t. merged_at pr = Some t \<and> date_of t = d))
                         upstream_prs)),
        upstream_releases = int (length (filter (published_on d) releases)),
        downstream_tasks_created = int (length (filter (created_on d) downstream_issues)),
        downstream_tasks_completed = int (length (filter (closed_on d) downstream_issues)),
        sync_activities =
          (\<Sum>l\<leftarrow>sync_labels. int (length (filter (updated_on d) (answer l)))) \<rparr>"
  have r: "collect_daily_metrics isoformat up down d = Inr m"
    by (simp add: m_def collect_daily_metrics_def assms(1,2,4,5)
        filter_raise_merged_on [OF assms(3)] for_each_sync_step [OF assms(6)])
  have k1: "upstream_issues_closed m = int (length (filter (closed_on d) upstream_issues))"
    and k2: "downstream_tasks_completed m = int (length (filter (closed_on d) downstream_issues))"
    and k3: "upstream_releases m = int (length (filter (published_on d) releases))"
    by (simp_all add: m_def)
  have g1: "upstream_issues_closed m =
        int (length (filter (\<lambda>i. \<exists>t. closed_at i = Some t \<and> date_of t = d) upstream_issues))"
    using k1 by (simp only: c)
  have g2: "downstream_tasks_completed m =
        int (length (filter (\<lambda>i. \<exists>t. closed_at i = Some t \<and> date_of t = d) downstream_issues))"
    using k2 by (simp only: c)
  have g3: "upstream_releases m =
        int (length (filter (\<lambda>r. \<exists>t. published_at r = Some t \<and> date_of t = d) releases))"
    using k3 by (simp only: p)
  have g4: "upstream_issues_closed m
        = int (length (filter (closed_on d) (filter (\<lambda>i. closed_at i \<noteq> None) upstream_issues)))"
    using k1 by (simp only: c')
  have g5: "downstream_tasks_completed m
        = int (length (filter (closed_on d) (filter (\<lambda>i. closed_at i \<noteq> None) downstream_issues)))"
    using k2 by (simp only: c')
  have g6: "upstream_releases m
        = int (length (filter (published_on d) (filter (\<lambda>r. published_at r \<noteq> None) releases)))"
    using k3 by (simp only: p')
  show ?thesis
    using r g1 g2 g3 g4 g5 g6 by blast
qed

theorem null_timestamps_not_counted_witness:
  "get_issues upstream_example [] Created = Inr [issue_crash, issue_dark_mode, issue_readme]
   \<and> get_pulls upstream_example = Inr [pull_refactor]
   \<and> merged pull_refactor \<and> merged_at pull_refactor = Some 8640300
   \<and> get_releases upstream_example = Inr [release_new, release_draft, release_old]
   \<and> get_issues downstream_example [''upstream-sync''] Created = Inr [task_both]
   \<and> closed_at issue_crash = None \<and> closed_at issue_readme = None
   \<and> published_at release_draft = None
   \<and> collect_daily_metrics date_label upstream_example downstream_example 100 = Inr metrics_day_100
   \<and> upstream_issues_closed metrics_day_100 =
        int (length (filter (closed_on 100)
          (filter (\<lambda>i. closed_at i \<noteq> None) [issue_crash, issue_dark_mode, issue_readme])))
   \<and> upstream_releases metrics_day_100 =
        int (length (filter (published_on 100)
          (filter (\<lambda>r. published_at r \<noteq> None) [release_new, release_draft, release_old])))"
proof -
  have p: "\<forall>pr \<in> set [pull_refactor]. merged pr \<longrightarrow> merged_at pr \<noteq> None"
    by (simp add: pull_refactor_def)
  have r: "get_releases upstream_example = Inr [release_new, release_draft, release_old]"
    by (simp add: upstream_example_def)
  have n: "closed_at issue_crash = None" "closed_at issue_readme = None"
    "published_at release_draft = None"
    by (simp_all add: issue_crash_def issue_readme_def release_draft_def)
  obtain m where c: "collect_daily_metrics date_label upstream_example downstream_example 100 = Inr m"
    and a: "upstream_issues_closed m =
        int (length (filter (closed_on 100)
          (filter (\<lambda>i. closed_at i \<noteq> None) [issue_crash, issue_dark_mode, issue_readme])))"
    and b: "upstream_releases m =
        int (length (filter (published_on 100)
          (filter (\<lambda>r. published_at r \<noteq> None) [release_new, release_draft, release_old])))"
    using null_timestamps_not_counted [OF example_upstream_issues example_upstream_pulls p r
        example_downstream_tasks example_label_answers, where isoformat = date_label and d = 100]
    by blast
  have "m = metrics_day_100"
    using c example_day_100 by simp
  moreover have "merged pull_refactor" and "merged_at pull_refactor = Some 8640300"
    by (simp_all add: pull_refactor_def)
  ultimately show ?thesis
    using example_upstream_issues example_upstream_pulls r example_downstream_tasks n
      example_day_100 a b by blast
qed

text \<open>
  C8. With an absent body the text is built without an exception: it is the lower-cased
  title followed by one space, and the issue (or pull request) is classified on that text.
\<close>

theorem absent_body_text:
  "item_text ttl None = Inr (lower ttl @ '' '')
   \<and> (body i = None \<longrightarrow>
        issue_step t i =
          Inr (t \<lparr> issue_categories :=
                     dict_incr (issue_categories t) (issue_category (lower (title i) @ '' '')),
                   top_contributors := dict_incr (top_contributors t) (user_login i) \<rparr>))
   \<and> (pr_body pr = None \<longrightarrow>
        pr_step t pr =
          Inr (t \<lparr> pr_types := dict_incr (pr_types t) (pr_type (lower (pr_title pr) @ '' '')),
                   top_contributors := dict_incr (top_contributors t) (pr_user_login pr) \<rparr>))"
  by (simp add: item_text_def issue_step_def pr_step_def)

theorem absent_body_text_witness:
  "body issue_crash = None \<and> pr_body pull_refactor = None
   \<and> item_text (title issue_crash) None = Inr ''crash on start ''
   \<and> issue_step initial_trends issue_crash =
       Inr (initial_trends \<lparr> issue_categories := [(''bug'', 1)],
                              top_contributors := [(''ann'', 1)] \<rparr>)
   \<and> pr_step initial_trends pull_refactor =
       Inr (initial_trends \<lparr> pr_types := [(''refactor'', 1)],
                              top_contributors := [(''bob'', 1)] \<rparr>)"
proof -
  have b: "body issue_crash = None" "pr_body pull_refactor = None"
    by (simp_all add: issue_crash_def pull_refactor_def)
  have l: "lower (title issue_crash) @ '' '' = ''crash on start ''"
    by code_simp
  have c: "issue_category (lower (title issue_crash) @ '' '') = ''bug''"
    by code_simp
  have d: "pr_type (lower (pr_title pull_refactor) @ '' '') = ''refactor''"
    by code_simp
  have e: "user_login issue_crash = ''ann''" "pr_user_login pull_refactor = ''bob''"
    by (simp_all add: issue_crash_def pull_refactor_def)
  have f: "dict_incr [] ''bug'' = [(''bug'', 1)]" "dict_incr [] ''ann'' = [(''ann'', 1)]"
    "dict_incr [] ''refactor'' = [(''refactor'', 1)]" "dict_incr [] ''bob'' = [(''bob'', 1)]"
    by (simp_all add: dict_incr_def dict_set_def dict_get_def)
  note T = absent_body_text [of "title issue_crash" issue_crash initial_trends pull_refactor]
  have t1: "item_text (title issue_crash) None = Inr ''crash on start ''"
    using T l by simp
  have t2: "issue_step initial_trends issue_crash =
       Inr (initial_trends \<lparr> issue_categories := [(''bug'', 1)],
                              top_contributors := [(''ann'', 1)] \<rparr>)"
    using T b by (simp add: c e f initial_trends_def)
  have t3: "pr_step initial_trends pull_refactor =
       Inr (initial_trends \<lparr> pr_types := [(''refactor'', 1)],
                              top_contributors := [(''bob'', 1)] \<rparr>)"
    using T b by (simp add: d e f initial_trends_def)
  show ?thesis
    using b t1 t2 t3 by blast
qed

text \<open>
  C9. When the collection of a day returns and the three label queries list the issues of
  the downstream repository that carry the label, the sync activities are the sum over the
  three labels of the issues with that label updated on the day; equally, every issue
  updated on the day contributes the number of sync labels it carries.
\<close>

theorem sync_activities_per_label:
  assumes "collect_daily_metrics isoformat up down d = Inr m"
    and "\<forall>l \<in> set sync_labels. get_issues down [l] Updated = Inr (answer l)
           \<and> mset (answer l) = mset (filter (\<lambda>i. l \<in> set (labels i)) repo)"
  shows "sync_activities m =
           (\<Sum>l\<leftarrow>sync_labels. int (length (filter (\<lambda>i. l \<in> set (labels i) \<and> updated_on d i) repo)))
    \<and> sync_activities m =
           (\<Sum>i\<leftarrow>filter (updated_on d) repo.
              int (length (filter (\<lambda>l. l \<in> set (labels i)) sync_labels)))"
proof -
  have answered: "\<forall>l \<in> set sync_labels. get_issues down [l] Updated = Inr (answer l)"
    using assms(2) by blast
  have "for_each (sync_step down d) sync_labels 0 = Inr (sync_activities m)"
    by (rule collect_daily_metrics_sync [OF assms(1)])
  then have s: "sync_activities m =
      (\<Sum>l\<leftarrow>sync_labels. int (length (filter (updated_on d) (answer l))))"
    by (simp add: for_each_sync_step [OF answered])
  have "length (filter (updated_on d) (answer l)) =
        length (filter (\<lambda>i. l \<in> set (labels i) \<and> updated_on d i) repo)"
    if "l \<in> set sync_labels" for l
  proof -
    have "mset (answer l) = mset (filter (\<lambda>i. l \<in> set (labels i)) repo)"
      using assms(2) that by blast
    then have "length (filter (updated_on d) (answer l)) =
        length (filter (updated_on d) (filter (\<lambda>i. l \<in> set (labels i)) repo))"
      by (rule length_filter_mset)
    then show ?thesis by (simp add: conj_commute)
  qed
  then have "(\<Sum>l\<leftarrow>sync_labels. int (length (filter (updated_on d) (answer l)))) =
      (\<Sum>l\<leftarrow>sync_labels. int (length (filter (\<lambda>i. l \<in> set (labels i) \<and> updated_on d i) repo)))"
    by (intro arg_cong [where f = sum_list] map_cong) simp_all
  then have one: "sync_activities m =
      (\<Sum>l\<leftarrow>sync_labels. int (length (filter (\<lambda>i. l \<in> set (labels i) \<and> updated_on d i) repo)))"
    using s by simp
  show ?thesis
    using one sum_labels_swap [where ls = sync_labels and U = "updated_on d" and repo = repo]
    by simp
qed

theorem sync_activities_per_label_witness:
  "collect_daily_metrics date_label upstream_example downstream_example 100 = Inr metrics_day_100
   \<and> sync_activities metrics_day_100 = 2
   \<and> (\<Sum>l\<leftarrow>sync_labels. int (length (filter (\<lambda>i. l \<in> set (labels i) \<and> updated_on 100 i)
                                           [task_both, task_release]))) = 2
   \<and> (\<Sum>i\<leftarrow>filter (updated_on 100) [task_both, task_release].
         int (length (filter (\<lambda>l. l \<in> set (labels i)) sync_labels))) = 2
   \<and> filter (updated_on 100) [task_both, task_release] = [task_both]
   \<and> length (filter (\<lambda>l. l \<in> set (labels task_both)) sync_labels) = 2"
proof -
  note T = sync_activities_per_label [OF example_day_100 example_label_lists]
  have s: "sync_activities metrics_day_100 = 2"
    by (simp add: metrics_day_100_def)
  have u: "filter (updated_on 100) [task_both, task_release] = [task_both]"
    by (simp add: updated_on_def date_of_def task_both_def task_release_def)
  have k: "length (filter (\<lambda>l. l \<in> set (labels task_both)) sync_labels) = 2"
    by (simp add: sync_labels_def task_both_def)
  have a: "(\<Sum>l\<leftarrow>sync_labels. int (length (filter (\<lambda>i. l \<in> set (labels i) \<and> updated_on 100 i)
                                           [task_both, task_release]))) = 2"
    using T s by simp
  have b: "(\<Sum>i\<leftarrow>filter (updated_on 100) [task_both, task_release].
         int (length (filter (\<lambda>l. l \<in> set (labels i)) sync_labels))) = 2"
    using T s by simp
  show ?thesis
    using example_day_100 s a b u k by blast
qed

text \<open>
  C10. The lookup of the last synchronisation always returns a string: \<^verbatim>\<open>Unknown\<close> when the
  listing (or anything else in the lookup) raises, \<^verbatim>\<open>No recent syncs found\<close> when the
  listing is empty, and otherwise the ISO form of the greatest \<^verbatim>\<open>updated_at\<close> among the first
  five listed issues, which the API lists from the most recently updated on.
\<close>

theorem last_sync_never_raises:
  "(get_issues down [''upstream-sync''] Updated = Inl e \<longrightarrow>
      get_last_sync_time isoformat down = ''Unknown'')
   \<and> (get_issues down [''upstream-sync''] Updated = Inr [] \<longrightarrow>
      get_last_sync_time isoformat down = ''No recent syncs found'')
   \<and> (get_issues down [''upstream-sync''] Updated = Inr found \<and> found \<noteq> [] \<longrightarrow>
      get_last_sync_time isoformat down = isoformat (Max (updated_at ` set (take 5 found))))
   \<and> (last_sync_lookup isoformat down = Inl e \<longrightarrow> get_last_sync_time isoformat down = ''Unknown'')"
proof -
  have "get_last_sync_time isoformat down = isoformat (Max (updated_at ` set (take 5 found)))"
    if a: "get_issues down [''upstream-sync''] Updated = Inr found" and b: "found \<noteq> []"
  proof -
    obtain x xs where c: "take 5 found = x # xs"
      using b by (cases found) simp_all
    show ?thesis
      by (simp add: get_last_sync_time_def last_sync_lookup_def a c fold_max_Max)
  qed
  then show ?thesis
    by (simp add: get_last_sync_time_def last_sync_lookup_def)
qed

theorem last_sync_never_raises_witness:
  "get_issues failing_api [''upstream-sync''] Updated = Inl GithubException
   \<and> get_last_sync_time time_label failing_api = ''Unknown''
   \<and> get_issues upstream_example [''upstream-sync''] Updated = Inr []
   \<and> get_last_sync_time time_label upstream_example = ''No recent syncs found''
   \<and> get_issues downstream_example [''upstream-sync''] Updated = Inr [task_both]
   \<and> [task_both] \<noteq> []
   \<and> get_last_sync_time time_label downstream_example = ''100T500''"
proof -
  have f: "get_issues failing_api [''upstream-sync''] Updated = Inl GithubException"
    by (simp add: failing_api_def)
  have n: "get_issues upstream_example [''upstream-sync''] Updated = Inr []"
    by (simp add: upstream_example_def label_query_def issue_crash_def issue_dark_mode_def
        issue_readme_def)
  have s: "get_issues downstream_example [''upstream-sync''] Updated = Inr [task_both]"
    by (simp add: downstream_example_def label_query_def task_both_def task_release_def)
  have mx: "Max (updated_at ` set (take 5 [task_both])) = 8640500"
    by (simp add: task_both_def)
  have tl: "time_label 8640500 = ''100T500''"
    by code_simp
  have l: "time_label (Max (updated_at ` set (take 5 [task_both]))) = ''100T500''"
    by (simp only: mx tl)
  have ne: "[task_both] \<noteq> []"
    by simp
  have a: "get_last_sync_time time_label failing_api = ''Unknown''"
    using last_sync_never_raises [where down = failing_api and e = GithubException
        and isoformat = time_label and found = "[]"] f
    by blast
  have b: "get_last_sync_time time_label upstream_example = ''No recent syncs found''"
    using last_sync_never_raises [where down = upstream_example and e = GithubException
        and isoformat = time_label and found = "[]"] n
    by blast
  have "get_last_sync_time time_label downstream_example =
      time_label (Max (updated_at ` set (take 5 [task_both])))"
    using last_sync_never_raises [where down = downstream_example and e = GithubException
        and isoformat = time_label and found = "[task_both]"] s ne
    by blast
  then have c: "get_last_sync_time time_label downstream_example = ''100T500''"
    by (simp only: l)
  show ?thesis
    using f n s ne a b c by blast
qed

end
